theory Spec2Isabelle
  imports Main
begin

section \<open>Python values and exceptions\<close>

text \<open>
  The two tool servers (\<^verbatim>\<open>src/web_search.py\<close> and \<^verbatim>\<open>src/github3.py\<close>) work on Python
  strings, on parsed JSON and on exceptions. A Python \<^verbatim>\<open>str\<close> is a \<^typ>\<open>string\<close>; an
  exception is its class together with the text that \<^verbatim>\<open>str(e)\<close> yields. Only instances of
  \<^verbatim>\<open>Exception\<close> are modelled: interpreter signals such as \<^verbatim>\<open>KeyboardInterrupt\<close> are not
  outcomes of any call made here.
\<close>

datatype exc_class =
    KeyError | TypeError | AttributeError | ValueError | IndexError
  | ConnectError | TimeoutException | HTTPStatusError
  | JSONDecodeError | BinasciiError | UnicodeDecodeError

datatype py_exception = Exc exc_class string

fun exc_str :: "py_exception \<Rightarrow> string" where
  "exc_str (Exc c m) = m"

fun exc_kind :: "py_exception \<Rightarrow> exc_class" where
  "exc_kind (Exc c m) = c"

definition NL :: string where
  "NL = [CHR 0x0A]"

definition SQ :: string where
  "SQ = [CHR 0x27]"

text \<open>\<^verbatim>\<open>sep.join(xs)\<close>\<close>

fun join :: "string \<Rightarrow> string list \<Rightarrow> string" where
  "join sep [] = []"
| "join sep [x] = x"
| "join sep (x # y # ys) = x @ sep @ join sep (y # ys)"

text \<open>\<^verbatim>\<open>s.startswith('/')\<close>\<close>

fun startswith_slash :: "string \<Rightarrow> bool" where
  "startswith_slash [] = False"
| "startswith_slash (c # cs) = (c = CHR ''/'')"

text \<open>
  \<^verbatim>\<open>s.strip()\<close> removes leading and trailing whitespace. A character stands for a code
  point below 256; among these Python's whitespace characters are 0x09 to 0x0D, 0x1C to
  0x1F, the space, 0x85 and 0xA0.
\<close>

definition is_space :: "char \<Rightarrow> bool" where
  "is_space c = (c \<in> set [CHR 0x09, CHR 0x0A, CHR 0x0B, CHR 0x0C, CHR 0x0D,
                            CHR 0x1C, CHR 0x1D, CHR 0x1E, CHR 0x1F, CHR 0x20,
                            CHR 0x85, CHR 0xA0])"

definition strip :: "string \<Rightarrow> string" where
  "strip s = rev (dropWhile is_space (rev (dropWhile is_space s)))"

text \<open>\<^verbatim>\<open>str(n)\<close> for an integer: decimal digits, with a minus sign when negative.\<close>

fun digits :: "nat \<Rightarrow> string" where
  "digits n = (if n < 10 then [''0123456789'' ! n]
               else digits (n div 10) @ [''0123456789'' ! (n mod 10)])"

declare digits.simps [simp del]

definition str_int :: "int \<Rightarrow> string" where
  "str_int i = (if i < 0 then CHR ''-'' # digits (nat (- i)) else digits (nat i))"

section \<open>The search result extractor (\<^verbatim>\<open>src/web_search.py\<close>)\<close>

text \<open>
  A result record is a Python dict with string keys and string values, written in insertion
  order.
\<close>

type_synonym pydict = "(string \<times> string) list"

definition has_key :: "string \<Rightarrow> pydict \<Rightarrow> bool" where
  "has_key k d = (map_of d k \<noteq> None)"

text \<open>\<^verbatim>\<open>d.get(k, default)\<close>\<close>

definition dict_get :: "pydict \<Rightarrow> string \<Rightarrow> string \<Rightarrow> string" where
  "dict_get d k dflt = (case map_of d k of None \<Rightarrow> dflt | Some v \<Rightarrow> v)"

text \<open>
  The HTTP request that \<^verbatim>\<open>client.post\<close> and \<^verbatim>\<open>requests.get\<close> send, and the response they
  return: the status code, the body text, and what \<^verbatim>\<open>response.json()\<close> would give (only the
  repository client reads it).
\<close>

datatype jvalue =
    JNull | JBool bool | JNum int | JStr string
  | JArr "jvalue list" | JObj "(string \<times> jvalue) list"

record http_request =
  req_method :: string
  req_url :: string
  req_params :: "(string \<times> string) list"
  req_headers :: "(string \<times> string) list"
  req_data :: "(string \<times> string) list"

record http_response =
  status_code :: int
  body_text :: string
  body_json :: "py_exception + jvalue"

text \<open>
  The markup parser presents the page as its result blocks in document order
  (\<^verbatim>\<open>soup.find_all('div', class_='result')\<close>). For each block,
  \<^verbatim>\<open>result.find('a', class_='result__a')\<close> and \<^verbatim>\<open>result.find('a', class_='result__snippet')\<close>
  give an element or \<^verbatim>\<open>None\<close>; an element has its text and an optional \<^verbatim>\<open>href\<close>.
\<close>

record element =
  get_text :: string
  href :: "string option"

record result_block =
  title_element :: "element option"
  snippet_element :: "element option"

text \<open>
  \<^verbatim>\<open>urllib.parse.urlparse\<close> yields a six-part result of which the extractor reads
  \<^verbatim>\<open>query\<close>; \<^verbatim>\<open>parse_qs\<close> yields a dict from names to lists of values. Both belong to the
  standard library, as do the HTTP client and the markup parser: they are parameters of
  the model, each free to raise.
\<close>

record parse_result =
  scheme :: string
  netloc :: string
  path :: string
  params :: string
  query :: string
  fragment :: string

record web_libs =
  client_post :: "http_request \<Rightarrow> py_exception + http_response"
  raise_for_status :: "http_response \<Rightarrow> py_exception + unit"
  find_results :: "string \<Rightarrow> py_exception + result_block list"
  urlparse :: "string \<Rightarrow> py_exception + parse_result"
  parse_qs :: "string \<Rightarrow> py_exception + (string \<times> string list) list"

definition USER_AGENT_WEB :: string where
  "USER_AGENT_WEB = ''Mozilla/5.0 (Windows NT 10.0; Win64; x64) AppleWebKit/537.36 (KHTML, like Gecko) Chrome/111.0.0.0 Safari/537.36''"

definition DUCKDUCKGO_URL :: string where
  "DUCKDUCKGO_URL = ''https://html.duckduckgo.com/html/''"

definition DUCKDUCKGO_ORIGIN :: string where
  "DUCKDUCKGO_ORIGIN = ''https://duckduckgo.com''"

text \<open>
  Lines 47 to 52, the body of the inner \<^verbatim>\<open>try\<close>: parse the link, parse its query string,
  and take the first \<^verbatim>\<open>uddg\<close> value when the key is there. \<^verbatim>\<open>query_params['uddg'][0]\<close> on an
  empty list raises \<^verbatim>\<open>IndexError\<close>.
\<close>

definition redirect_target :: "web_libs \<Rightarrow> string \<Rightarrow> py_exception + string" where
  "redirect_target lib link =
     (case urlparse lib link of
        Inl e \<Rightarrow> Inl e
      | Inr parsed_url \<Rightarrow>
          (case parse_qs lib (query parsed_url) of
             Inl e \<Rightarrow> Inl e
           | Inr query_params \<Rightarrow>
               (case map_of query_params ''uddg'' of
                  Some vs \<Rightarrow>
                    (case vs of
                       [] \<Rightarrow> Inl (Exc IndexError ''list index out of range'')
                     | v # _ \<Rightarrow> Inr v)
                | None \<Rightarrow> Inr (DUCKDUCKGO_ORIGIN @ link))))"

text \<open>
  Lines 44 to 54: only a link that starts with a slash is rewritten; the bare
  \<^verbatim>\<open>except:\<close> catches whatever the body raised.
\<close>

definition normalize_link :: "web_libs \<Rightarrow> string \<Rightarrow> py_exception + string" where
  "normalize_link lib link =
     (if startswith_slash link then
        (case redirect_target lib link of
           Inr l \<Rightarrow> Inr l
         | Inl e \<Rightarrow> Inr (DUCKDUCKGO_ORIGIN @ link))
      else Inr link)"

text \<open>
  Lines 40 to 62 for a block that has both elements. \<^verbatim>\<open>link.startswith\<close> on a missing
  \<^verbatim>\<open>href\<close> (\<^verbatim>\<open>None\<close>) raises \<^verbatim>\<open>AttributeError\<close>, outside the inner \<^verbatim>\<open>try\<close>.
\<close>

definition make_record :: "web_libs \<Rightarrow> element \<Rightarrow> element \<Rightarrow> py_exception + pydict" where
  "make_record lib t s =
     (let title = strip (get_text t) in
      case href t of
        None \<Rightarrow> Inl (Exc AttributeError
                  (SQ @ ''NoneType'' @ SQ @ '' object has no attribute '' @ SQ @ ''startswith'' @ SQ))
      | Some link0 \<Rightarrow>
          (case normalize_link lib link0 of
             Inl e \<Rightarrow> Inl e
           | Inr link \<Rightarrow>
               (let snippet = strip (get_text s) in
                Inr [(''title'', title), (''link'', link), (''snippet'', snippet)])))"

text \<open>
  The loop of lines 35 to 65 over the result blocks, with the list collected so far. The
  count is compared with \<^verbatim>\<open>num_results\<close> after each append, and \<^verbatim>\<open>break\<close> leaves the
  remaining blocks alone.
\<close>

fun scan_results ::
  "web_libs \<Rightarrow> int \<Rightarrow> result_block list \<Rightarrow> pydict list \<Rightarrow> py_exception + pydict list" where
  "scan_results lib num_results [] results = Inr results"
| "scan_results lib num_results (b # bs) results =
     (case title_element b of
        None \<Rightarrow> scan_results lib num_results bs results
      | Some t \<Rightarrow>
          (case snippet_element b of
             None \<Rightarrow> scan_results lib num_results bs results
           | Some s \<Rightarrow>
               (case make_record lib t s of
                  Inl e \<Rightarrow> Inl e
                | Inr r \<Rightarrow>
                    (let results' = results @ [r] in
                     if int (length results') \<ge> num_results then Inr results'
                     else scan_results lib num_results bs results'))))"

definition search_request :: "string \<Rightarrow> http_request" where
  "search_request q =
     \<lparr> req_method = ''POST'', req_url = DUCKDUCKGO_URL, req_params = [],
       req_headers = [(''User-Agent'', USER_AGENT_WEB)],
       req_data = [(''q'', q), (''kl'', ''us-en'')] \<rparr>"

text \<open>Lines 28 to 65, the body of the outer \<^verbatim>\<open>try\<close>.\<close>

definition search_body :: "web_libs \<Rightarrow> string \<Rightarrow> int \<Rightarrow> py_exception + pydict list" where
  "search_body lib q num_results =
     (case client_post lib (search_request q) of
        Inl e \<Rightarrow> Inl e
      | Inr response \<Rightarrow>
          (case raise_for_status lib response of
             Inl e \<Rightarrow> Inl e
           | Inr _ \<Rightarrow>
               (case find_results lib (body_text response) of
                  Inl e \<Rightarrow> Inl e
                | Inr blocks \<Rightarrow> scan_results lib num_results blocks [])))"

text \<open>
  \<^verbatim>\<open>search_duckduckgo\<close>: \<^verbatim>\<open>except Exception as e\<close> turns whatever the body raised into the
  one-record list \<^verbatim>\<open>[{"error": str(e)}]\<close>.
\<close>

definition search_duckduckgo :: "web_libs \<Rightarrow> string \<Rightarrow> int \<Rightarrow> py_exception + pydict list" where
  "search_duckduckgo lib q num_results =
     (case search_body lib q num_results of
        Inl e \<Rightarrow> Inr [[(''error'', exc_str e)]]
      | Inr results \<Rightarrow> Inr results)"

text \<open>Lines 88 to 93: the text block for the \<open>i\<close>-th record.\<close>

definition format_result :: "nat \<Rightarrow> pydict \<Rightarrow> string" where
  "format_result i r =
     NL @ ''Result '' @ str_int (int i) @ '':'' @ NL @
     ''Title: '' @ dict_get r ''title'' ''No title'' @ NL @
     ''URL: '' @ dict_get r ''link'' ''No link'' @ NL @
     ''Snippet: '' @ dict_get r ''snippet'' ''No description available'' @ NL"

fun format_results :: "nat \<Rightarrow> pydict list \<Rightarrow> string list" where
  "format_results i [] = []"
| "format_results i (r # rs) = format_result i r # format_results (Suc i) rs"

text \<open>\<^verbatim>\<open>web_search\<close>, the tool: the extractor is always asked for 15 records.\<close>

definition web_search :: "web_libs \<Rightarrow> string \<Rightarrow> py_exception + string" where
  "web_search lib q =
     (case search_duckduckgo lib q 15 of
        Inl e \<Rightarrow> Inl e
      | Inr results \<Rightarrow>
          (case results of
             [] \<Rightarrow> Inr ''No search results found.''
           | r0 # _ \<Rightarrow>
               if has_key ''error'' r0 then Inr (''Error: '' @ dict_get r0 ''error'' [])
               else Inr (join (NL @ ''---'' @ NL) (format_results 1 results))))"

section \<open>The repository content client (\<^verbatim>\<open>src/github3.py\<close>)\<close>

subsection \<open>Parsed JSON as Python objects\<close>

text \<open>
  \<^verbatim>\<open>response.json()\<close> may be any JSON value; \<^typ>\<open>jvalue\<close> is the Python object it becomes
  (\<^verbatim>\<open>None\<close>, \<^verbatim>\<open>bool\<close>, \<^verbatim>\<open>int\<close>, \<^verbatim>\<open>str\<close>, \<^verbatim>\<open>list\<close>, \<^verbatim>\<open>dict\<close>). Numbers are integers, which
  is what the sizes and quotas of this interface are. The operations below are the ones the
  client applies to such objects, each raising what Python raises on the wrong type.
\<close>

definition bindE :: "'e + 'a \<Rightarrow> ('a \<Rightarrow> 'e + 'b) \<Rightarrow> 'e + 'b" where
  "bindE m f = (case m of Inl e \<Rightarrow> Inl e | Inr x \<Rightarrow> f x)"

fun type_name :: "jvalue \<Rightarrow> string" where
  "type_name JNull = ''NoneType''"
| "type_name (JBool b) = ''bool''"
| "type_name (JNum n) = ''int''"
| "type_name (JStr s) = ''str''"
| "type_name (JArr xs) = ''list''"
| "type_name (JObj kvs) = ''dict''"

text \<open>
  \<^verbatim>\<open>repr(s)\<close> of a string: quoted, with the backslash, the quote and the characters that
  are not printable escaped (below 0x20, 0x7F to 0xA0, and 0xAD).
\<close>

definition hex_digit :: "nat \<Rightarrow> char" where
  "hex_digit n = ''0123456789abcdef'' ! n"

definition escape_char :: "char \<Rightarrow> char \<Rightarrow> string" where
  "escape_char q c =
     (if c = CHR 0x5C then [CHR 0x5C, CHR 0x5C]
      else if c = q then [CHR 0x5C, q]
      else if c = CHR 0x0A then [CHR 0x5C, CHR ''n'']
      else if c = CHR 0x0D then [CHR 0x5C, CHR ''r'']
      else if c = CHR 0x09 then [CHR 0x5C, CHR ''t'']
      else if (of_char c :: nat) < 32
              \<or> (127 \<le> (of_char c :: nat) \<and> (of_char c :: nat) \<le> 160)
              \<or> (of_char c :: nat) = 173 then
        [CHR 0x5C, CHR ''x'', hex_digit ((of_char c :: nat) div 16), hex_digit ((of_char c :: nat) mod 16)]
      else [c])"

definition repr_str :: "string \<Rightarrow> string" where
  "repr_str s =
     (let q = (if CHR 0x27 \<in> set s \<and> CHR 0x22 \<notin> set s then CHR 0x22 else CHR 0x27)
      in q # concat (map (escape_char q) s) @ [q])"

fun py_repr :: "jvalue \<Rightarrow> string" where
  "py_repr JNull = ''None''"
| "py_repr (JBool b) = (if b then ''True'' else ''False'')"
| "py_repr (JNum n) = str_int n"
| "py_repr (JStr s) = repr_str s"
| "py_repr (JArr xs) = ''['' @ join '', '' (map py_repr xs) @ '']''"
| "py_repr (JObj kvs) =
     ''{'' @ join '', '' (map (\<lambda>kv. repr_str (fst kv) @ '': '' @ py_repr (snd kv)) kvs) @ ''}''"

text \<open>\<^verbatim>\<open>str(v)\<close>, which is what an f-string writes for \<^verbatim>\<open>{v}\<close>.\<close>

fun py_str :: "jvalue \<Rightarrow> string" where
  "py_str (JStr s) = s"
| "py_str v = py_repr v"

text \<open>\<^verbatim>\<open>sub in s\<close> on two strings.\<close>

fun is_prefix :: "string \<Rightarrow> string \<Rightarrow> bool" where
  "is_prefix [] s = True"
| "is_prefix (c # cs) [] = False"
| "is_prefix (c # cs) (d # ds) = (c = d \<and> is_prefix cs ds)"

fun is_substring :: "string \<Rightarrow> string \<Rightarrow> bool" where
  "is_substring sub [] = (sub = [])"
| "is_substring sub (d # ds) = (is_prefix sub (d # ds) \<or> is_substring sub ds)"

text \<open>
  \<^verbatim>\<open>key in v\<close> for a string key: a key of a dict, an element of a list, a substring of a
  string, and \<^verbatim>\<open>TypeError\<close> on anything else.
\<close>

fun py_contains :: "string \<Rightarrow> jvalue \<Rightarrow> py_exception + bool" where
  "py_contains k (JObj kvs) = Inr (map_of kvs k \<noteq> None)"
| "py_contains k (JArr xs) = Inr (List.member xs (JStr k))"
| "py_contains k (JStr s) = Inr (is_substring k s)"
| "py_contains k v =
     Inl (Exc TypeError (''argument of type '' @ SQ @ type_name v @ SQ @ '' is not iterable''))"

text \<open>\<^verbatim>\<open>v[key]\<close> for a string key.\<close>

fun py_getitem :: "jvalue \<Rightarrow> string \<Rightarrow> py_exception + jvalue" where
  "py_getitem (JObj kvs) k =
     (case map_of kvs k of None \<Rightarrow> Inl (Exc KeyError (repr_str k)) | Some v \<Rightarrow> Inr v)"
| "py_getitem (JArr xs) k =
     Inl (Exc TypeError ''list indices must be integers or slices, not str'')"
| "py_getitem (JStr s) k =
     Inl (Exc TypeError (''string indices must be integers, not '' @ SQ @ ''str'' @ SQ))"
| "py_getitem v k =
     Inl (Exc TypeError (SQ @ type_name v @ SQ @ '' object is not subscriptable''))"

text \<open>\<^verbatim>\<open>v.get(key, default)\<close>: only a dict has the method.\<close>

fun py_get :: "jvalue \<Rightarrow> string \<Rightarrow> jvalue \<Rightarrow> py_exception + jvalue" where
  "py_get (JObj kvs) k dflt = (case map_of kvs k of None \<Rightarrow> Inr dflt | Some v \<Rightarrow> Inr v)"
| "py_get v k dflt =
     Inl (Exc AttributeError
            (SQ @ type_name v @ SQ @ '' object has no attribute '' @ SQ @ ''get'' @ SQ))"

text \<open>Truth value of an object (\<^verbatim>\<open>if not items\<close>).\<close>

fun truthy :: "jvalue \<Rightarrow> bool" where
  "truthy JNull = False"
| "truthy (JBool b) = b"
| "truthy (JNum n) = (n \<noteq> 0)"
| "truthy (JStr s) = (s \<noteq> [])"
| "truthy (JArr xs) = (xs \<noteq> [])"
| "truthy (JObj kvs) = (kvs \<noteq> [])"

text \<open>
  What a \<^verbatim>\<open>for\<close> loop iterates over: the elements of a list, the keys of a dict, the
  characters of a string; anything else is not iterable.
\<close>

fun py_iter :: "jvalue \<Rightarrow> py_exception + jvalue list" where
  "py_iter (JArr xs) = Inr xs"
| "py_iter (JObj kvs) = Inr (map (\<lambda>kv. JStr (fst kv)) kvs)"
| "py_iter (JStr s) = Inr (map (\<lambda>c. JStr [c]) s)"
| "py_iter v = Inl (Exc TypeError (SQ @ type_name v @ SQ @ '' object is not iterable''))"

fun is_dict :: "jvalue \<Rightarrow> bool" where
  "is_dict (JObj kvs) = True"
| "is_dict v = False"

fun is_list :: "jvalue \<Rightarrow> bool" where
  "is_list (JArr xs) = True"
| "is_list v = False"

text \<open>\<^verbatim>\<open>s.split('/')\<close>: one part more than there are slashes, empty parts kept.\<close>

fun split_slash :: "string \<Rightarrow> string list" where
  "split_slash [] = [[]]"
| "split_slash (c # cs) =
     (if c = CHR ''/'' then [] # split_slash cs
      else (case split_slash cs of
              [] \<Rightarrow> [[c]]
            | p # ps \<Rightarrow> (c # p) # ps))"

subsection \<open>The operations\<close>

text \<open>
  \<^verbatim>\<open>requests.get\<close>, \<^verbatim>\<open>base64.b64decode\<close> and \<^verbatim>\<open>bytes.decode("utf-8")\<close> are library code:
  parameters of the model, each free to raise. Bytes are 8-bit characters.
\<close>

type_synonym bytes = "char list"

record github_libs =
  requests_get :: "http_request \<Rightarrow> py_exception + http_response"
  b64decode :: "string \<Rightarrow> py_exception + bytes"
  utf8_decode :: "bytes \<Rightarrow> py_exception + string"

text \<open>
  An operation yields the requests it sent, in order, and then either the text it returns
  or the exception that leaves it.
\<close>

type_synonym 'a traced = "http_request list \<times> (py_exception + 'a)"

definition GITHUB_API_BASE :: string where
  "GITHUB_API_BASE = ''https://api.github.com''"

definition USER_AGENT :: string where
  "USER_AGENT = ''github-mcp-tool/1.0''"

definition GITHUB_TOKEN :: string where
  "GITHUB_TOKEN = []"

definition contents_request :: "string \<Rightarrow> string \<Rightarrow> string \<Rightarrow> string \<Rightarrow> http_request" where
  "contents_request repo_owner repo_name pth ref =
     \<lparr> req_method = ''GET'',
       req_url = GITHUB_API_BASE @ ''/repos/'' @ repo_owner @ ''/'' @ repo_name @ ''/contents/'' @ pth,
       req_params = [(''ref'', ref)],
       req_headers = [(''User-Agent'', USER_AGENT),
                      (''Accept'', ''application/vnd.github.v3+json''),
                      (''Authorization'', ''token '' @ GITHUB_TOKEN)],
       req_data = [] \<rparr>"

text \<open>\<^verbatim>\<open>get_github_contents\<close>, lines 16 to 31.\<close>

definition get_github_contents ::
  "github_libs \<Rightarrow> string \<Rightarrow> string \<Rightarrow> string \<Rightarrow> string \<Rightarrow> jvalue traced" where
  "get_github_contents lib repo_owner repo_name pth ref =
     (let req = contents_request repo_owner repo_name pth ref in
      ([req],
       bindE (requests_get lib req) (\<lambda>response.
         if status_code response \<noteq> 200 then
           Inr (JObj [(''error'', JStr (''GitHub API error: '' @ str_int (status_code response)
                                        @ '' - '' @ body_text response))])
         else body_json response)))"

definition repo_format_error :: "string \<Rightarrow> string" where
  "repo_format_error repo =
     ''Error: Repository format should be '' @ SQ @ ''owner/repo'' @ SQ @ '', got '' @ SQ @ repo @ SQ"

text \<open>\<^verbatim>\<open>base64.b64decode(c).decode("utf-8")\<close>; an object that is no string is a \<^verbatim>\<open>TypeError\<close>.\<close>

definition decode_content :: "github_libs \<Rightarrow> jvalue \<Rightarrow> py_exception + string" where
  "decode_content lib c =
     (case c of
        JStr s \<Rightarrow> bindE (b64decode lib s) (utf8_decode lib)
      | _ \<Rightarrow> Inl (Exc TypeError (''argument should be a bytes-like object or ASCII string, not ''
                                 @ SQ @ type_name c @ SQ)))"

text \<open>Lines 52 to 65 of \<^verbatim>\<open>github_get_file\<close>, on the object that came back.\<close>

definition file_result :: "github_libs \<Rightarrow> string \<Rightarrow> jvalue \<Rightarrow> py_exception + string" where
  "file_result lib file_path contents =
     bindE (py_contains ''error'' contents) (\<lambda>has_error.
       if has_error then
         bindE (py_getitem contents ''error'') (\<lambda>err. Inr (''Error: '' @ py_str err))
       else
         bindE (if is_dict contents then py_contains ''type'' contents else Inr False) (\<lambda>typed.
           if typed then
             bindE (py_getitem contents ''type'') (\<lambda>ty.
               if ty \<noteq> JStr ''file'' then
                 Inr (''Error: Path '' @ SQ @ file_path @ SQ @ '' is not a file'')
               else
                 bindE (py_contains ''content'' contents) (\<lambda>has_content.
                   bindE (if has_content
                          then bindE (py_getitem contents ''encoding'') (\<lambda>enc. Inr (enc = JStr ''base64''))
                          else Inr False) (\<lambda>decodable.
                     if decodable then
                       bindE (py_getitem contents ''content'') (decode_content lib)
                     else Inr ''Error: Could not decode file content'')))
           else Inr ''Error: Unexpected API response format''))"

text \<open>
  \<^verbatim>\<open>github_get_file\<close>: \<^verbatim>\<open>repo.split('/')\<close> must give two parts, which become owner and
  name; otherwise the message is returned at once.
\<close>

definition github_get_file :: "github_libs \<Rightarrow> string \<Rightarrow> string \<Rightarrow> string \<Rightarrow> string traced" where
  "github_get_file lib repo file_path branch =
     (let parts = split_slash repo in
      if length parts \<noteq> 2 then ([], Inr (repo_format_error repo))
      else
        (let owner = parts ! 0; repo_name = parts ! 1;
             (sent, got) = get_github_contents lib owner repo_name file_path branch
         in (sent, bindE got (file_result lib file_path))))"

text \<open>Lines 94 to 104: the block for one entry of a listing.\<close>

definition format_entry :: "jvalue \<Rightarrow> py_exception + string" where
  "format_entry item =
     bindE (py_getitem item ''type'') (\<lambda>item_type.
     bindE (py_getitem item ''name'') (\<lambda>item_name.
     bindE (py_getitem item ''path'') (\<lambda>item_path.
     bindE (bindE (py_getitem item ''type'') (\<lambda>ty.
              if ty = JStr ''file'' then py_get item ''size'' (JStr ''N/A'')
              else Inr (JStr ''N/A''))) (\<lambda>item_size.
       Inr (NL @ ''Type: '' @ py_str item_type @ NL @
            ''Name: '' @ py_str item_name @ NL @
            ''Path: '' @ py_str item_path @ NL @
            ''Size: '' @ py_str item_size @ '' bytes'' @ NL)))))"

text \<open>The loop of lines 92 to 105, appending to \<^verbatim>\<open>formatted_results\<close>.\<close>

fun format_entries :: "jvalue list \<Rightarrow> string list \<Rightarrow> py_exception + string list" where
  "format_entries [] formatted_results = Inr formatted_results"
| "format_entries (item # items) formatted_results =
     bindE (format_entry item) (\<lambda>formatted_item.
       format_entries items (formatted_results @ [formatted_item]))"

text \<open>Lines 86 to 107 of \<^verbatim>\<open>github_list_directory\<close>, on the object that came back.\<close>

definition directory_result :: "string \<Rightarrow> jvalue \<Rightarrow> py_exception + string" where
  "directory_result pth contents =
     bindE (py_contains ''error'' contents) (\<lambda>has_error.
       if has_error then
         bindE (py_getitem contents ''error'') (\<lambda>err. Inr (''Error: '' @ py_str err))
       else
         (case contents of
            JArr items \<Rightarrow>
              bindE (format_entries items []) (\<lambda>formatted_results.
                Inr (join (NL @ ''---'' @ NL) formatted_results))
          | _ \<Rightarrow> Inr (''Error: Path '' @ SQ @ pth @ SQ
                      @ '' is not a directory or the API returned unexpected data'')))"

definition github_list_directory ::
  "github_libs \<Rightarrow> string \<Rightarrow> string \<Rightarrow> string \<Rightarrow> string traced" where
  "github_list_directory lib repo pth branch =
     (let parts = split_slash repo in
      if length parts \<noteq> 2 then ([], Inr (repo_format_error repo))
      else
        (let owner = parts ! 0; repo_name = parts ! 1;
             (sent, got) = get_github_contents lib owner repo_name pth branch
         in (sent, bindE got (directory_result pth))))"

definition search_code_request :: "string \<Rightarrow> string \<Rightarrow> string \<Rightarrow> string \<Rightarrow> http_request" where
  "search_code_request owner repo_name q branch =
     \<lparr> req_method = ''GET'',
       req_url = GITHUB_API_BASE @ ''/search/code'',
       req_params = [(''q'', q @ '' in:file repo:'' @ owner @ ''/'' @ repo_name @ '' ref:'' @ branch)],
       req_headers = [(''User-Agent'', USER_AGENT),
                      (''Accept'', ''application/vnd.github.v3+json''),
                      (''Authorization'', ''token '' @ GITHUB_TOKEN)],
       req_data = [] \<rparr>"

text \<open>Lines 148 to 153: the block for the \<open>i\<close>-th match; every field has a default.\<close>

definition format_match :: "nat \<Rightarrow> jvalue \<Rightarrow> py_exception + string" where
  "format_match i item =
     bindE (py_get item ''name'' (JStr ''Unknown'')) (\<lambda>name.
     bindE (py_get item ''path'' (JStr ''Unknown'')) (\<lambda>pth.
     bindE (py_get item ''html_url'' (JStr ''Unknown'')) (\<lambda>html_url.
       Inr (NL @ ''Result '' @ str_int (int i) @ '':'' @ NL @
            ''Name: '' @ py_str name @ NL @
            ''Path: '' @ py_str pth @ NL @
            ''URL: '' @ py_str html_url @ NL))))"

fun format_matches :: "nat \<Rightarrow> jvalue list \<Rightarrow> string list \<Rightarrow> py_exception + string list" where
  "format_matches i [] formatted_results = Inr formatted_results"
| "format_matches i (item # items) formatted_results =
     bindE (format_match i item) (\<lambda>formatted_item.
       format_matches (Suc i) items (formatted_results @ [formatted_item]))"

text \<open>Lines 137 to 156 of \<^verbatim>\<open>github_search_code\<close>, on the response.\<close>

definition search_result :: "http_response \<Rightarrow> py_exception + string" where
  "search_result response =
     (if status_code response \<noteq> 200 then
        Inr (''Error: GitHub API error: '' @ str_int (status_code response)
             @ '' - '' @ body_text response)
      else
        bindE (body_json response) (\<lambda>result.
        bindE (py_get result ''items'' (JArr [])) (\<lambda>items.
          if \<not> truthy items then Inr ''No matching files found.''
          else
            bindE (py_iter items) (\<lambda>its.
            bindE (format_matches 1 its []) (\<lambda>formatted_results.
              Inr (join (NL @ ''---'' @ NL) formatted_results))))))"

definition github_search_code ::
  "github_libs \<Rightarrow> string \<Rightarrow> string \<Rightarrow> string \<Rightarrow> string traced" where
  "github_search_code lib repo q branch =
     (let parts = split_slash repo in
      if length parts \<noteq> 2 then ([], Inr (repo_format_error repo))
      else
        (let owner = parts ! 0; repo_name = parts ! 1;
             req = search_code_request owner repo_name q branch
         in ([req], bindE (requests_get lib req) search_result)))"

definition rate_limit_request :: http_request where
  "rate_limit_request =
     \<lparr> req_method = ''GET'',
       req_url = GITHUB_API_BASE @ ''/rate_limit'',
       req_params = [],
       req_headers = [(''User-Agent'', USER_AGENT),
                      (''Authorization'', ''token '' @ GITHUB_TOKEN)],
       req_data = [] \<rparr>"

text \<open>Lines 162 to 172 of \<^verbatim>\<open>check_github_connection\<close>, the body of the \<^verbatim>\<open>try\<close>.\<close>

definition connection_body :: "github_libs \<Rightarrow> py_exception + string" where
  "connection_body lib =
     bindE (requests_get lib rate_limit_request) (\<lambda>response.
       if status_code response = 200 then
         bindE (body_json response) (\<lambda>rate_limit_info.
         bindE (py_get rate_limit_info ''resources'' (JObj [])) (\<lambda>resources.
         bindE (py_get resources ''core'' (JObj [])) (\<lambda>core.
         bindE (py_get core ''remaining'' (JNum 0)) (\<lambda>core_remaining.
           Inr (''GitHub API connection successful. Remaining rate limit: ''
                @ py_str core_remaining @ '' requests.'')))))
       else
         Inr (''Error connecting to GitHub API: '' @ str_int (status_code response)
              @ '' - '' @ body_text response))"

text \<open>\<^verbatim>\<open>check_github_connection\<close>: \<^verbatim>\<open>except Exception as e\<close> returns \<^verbatim>\<open>f"Error: {str(e)}"\<close>.\<close>

definition check_github_connection :: "github_libs \<Rightarrow> string traced" where
  "check_github_connection lib =
     ([rate_limit_request],
      (case connection_body lib of
         Inl e \<Rightarrow> Inr (''Error: '' @ exc_str e)
       | Inr s \<Rightarrow> Inr s))"

section \<open>Reference statements\<close>

text \<open>
  The specification calls a repository reference valid when it splits into exactly two
  non-empty segments. This predicate follows those words; the operations above test the
  number of segments only.
\<close>

definition two_nonempty_parts :: "string \<Rightarrow> bool" where
  "two_nonempty_parts repo =
     (case split_slash repo of
        [a, b] \<Rightarrow> a \<noteq> [] \<and> b \<noteq> []
      | _ \<Rightarrow> False)"

text \<open>
  An entry of a directory response carries \<^verbatim>\<open>type\<close>, \<^verbatim>\<open>name\<close> and \<^verbatim>\<open>path\<close>, and may carry
  \<^verbatim>\<open>size\<close>.
\<close>

definition complete_entry :: "jvalue \<Rightarrow> bool" where
  "complete_entry item =
     (case item of
        JObj kvs \<Rightarrow>
          map_of kvs ''type'' \<noteq> None \<and> map_of kvs ''name'' \<noteq> None \<and> map_of kvs ''path'' \<noteq> None
      | _ \<Rightarrow> False)"

text \<open>
  The block the specification expects for an entry: its type, name and path, and its size,
  which reads \<^verbatim>\<open>N/A\<close> unless the entry is a file that has one.
\<close>

definition shown :: "(string \<times> jvalue) list \<Rightarrow> string \<Rightarrow> string" where
  "shown kvs k = (case map_of kvs k of Some v \<Rightarrow> py_str v | None \<Rightarrow> [])"

definition entry_block :: "jvalue \<Rightarrow> string" where
  "entry_block item =
     (case item of
        JObj kvs \<Rightarrow>
          NL @ ''Type: '' @ shown kvs ''type'' @ NL @
          ''Name: '' @ shown kvs ''name'' @ NL @
          ''Path: '' @ shown kvs ''path'' @ NL @
          ''Size: '' @ (if map_of kvs ''type'' = Some (JStr ''file'')
                        then (case map_of kvs ''size'' of Some v \<Rightarrow> py_str v | None \<Rightarrow> ''N/A'')
                        else ''N/A'') @ '' bytes'' @ NL
      | _ \<Rightarrow> [])"

text \<open>
  The block the specification expects for the \<open>i\<close>-th match of a search: its name, path and
  URL, each reading \<^verbatim>\<open>Unknown\<close> when the match does not have it; and the blocks of a list
  of matches, numbered from \<open>i\<close> in the order of the list.
\<close>

definition shown_or :: "(string \<times> jvalue) list \<Rightarrow> string \<Rightarrow> string \<Rightarrow> string" where
  "shown_or kvs k dflt = (case map_of kvs k of Some v \<Rightarrow> py_str v | None \<Rightarrow> dflt)"

definition match_block :: "nat \<Rightarrow> jvalue \<Rightarrow> string" where
  "match_block i item =
     (case item of
        JObj kvs \<Rightarrow>
          NL @ ''Result '' @ str_int (int i) @ '':'' @ NL @
          ''Name: '' @ shown_or kvs ''name'' ''Unknown'' @ NL @
          ''Path: '' @ shown_or kvs ''path'' ''Unknown'' @ NL @
          ''URL: '' @ shown_or kvs ''html_url'' ''Unknown'' @ NL
      | _ \<Rightarrow> [])"

fun match_blocks :: "nat \<Rightarrow> jvalue list \<Rightarrow> string list" where
  "match_blocks i [] = []"
| "match_blocks i (item # items) = match_block i item # match_blocks (Suc i) items"

section \<open>Concrete environments\<close>

text \<open>
  Small stand-ins for the libraries, on which the operations can be run: a URL parser that
  cuts at the question mark and rejects an unclosed bracket, a query parser that knows one
  query string, an HTTP layer that gives a fixed answer, and a codec that knows one
  base64 text.
\<close>

definition demo_urlparse :: "string \<Rightarrow> py_exception + parse_result" where
  "demo_urlparse s =
     (if s = ''//['' then Inl (Exc ValueError ''Invalid IPv6 URL'')
      else Inr \<lparr> scheme = [], netloc = [], path = takeWhile (\<lambda>c. c \<noteq> CHR ''?'') s,
                 params = [], query = drop 1 (dropWhile (\<lambda>c. c \<noteq> CHR ''?'') s),
                 fragment = [] \<rparr>)"

definition demo_parse_qs :: "string \<Rightarrow> py_exception + (string \<times> string list) list" where
  "demo_parse_qs s =
     (if s = ''uddg=https%3A%2F%2Fexample.com'' then Inr [(''uddg'', [''https://example.com''])]
      else Inr [])"

definition demo_web :: "(py_exception + http_response) \<Rightarrow> result_block list \<Rightarrow> web_libs" where
  "demo_web answer blocks =
     \<lparr> client_post = (\<lambda>r. answer),
       raise_for_status =
         (\<lambda>r. if 200 \<le> status_code r \<and> status_code r < 300 then Inr ()
               else Inl (Exc HTTPStatusError (''Server error '' @ str_int (status_code r)))),
       find_results = (\<lambda>s. Inr blocks),
       urlparse = demo_urlparse,
       parse_qs = demo_parse_qs \<rparr>"

definition ok_page :: "py_exception + http_response" where
  "ok_page = Inr \<lparr> status_code = 200, body_text = ''<html></html>'',
                   body_json = Inl (Exc JSONDecodeError ''Expecting value'') \<rparr>"

definition block :: "string \<Rightarrow> string \<Rightarrow> string \<Rightarrow> result_block" where
  "block t l s = \<lparr> title_element = Some \<lparr> get_text = t, href = Some l \<rparr>,
                   snippet_element = Some \<lparr> get_text = s, href = None \<rparr> \<rparr>"

definition untitled_block :: "string \<Rightarrow> result_block" where
  "untitled_block s = \<lparr> title_element = None,
                        snippet_element = Some \<lparr> get_text = s, href = None \<rparr> \<rparr>"

definition demo_b64decode :: "string \<Rightarrow> py_exception + bytes" where
  "demo_b64decode s =
     (if s = ''aGk='' then Inr ''hi''
      else Inl (Exc BinasciiError ''Incorrect padding''))"

definition demo_utf8_decode :: "bytes \<Rightarrow> py_exception + string" where
  "demo_utf8_decode b =
     (if list_all (\<lambda>c. (of_char c :: nat) < 128) b then Inr b
      else Inl (Exc UnicodeDecodeError ''invalid start byte''))"

definition demo_github :: "(py_exception + http_response) \<Rightarrow> github_libs" where
  "demo_github answer =
     \<lparr> requests_get = (\<lambda>r. answer), b64decode = demo_b64decode,
       utf8_decode = demo_utf8_decode \<rparr>"

definition ok_json :: "jvalue \<Rightarrow> py_exception + http_response" where
  "ok_json v = Inr \<lparr> status_code = 200, body_text = [], body_json = Inr v \<rparr>"

section \<open>Properties of the search result extractor\<close>

lemma bindE_simps [simp]:
  "bindE (Inl e) f = Inl e"
  "bindE (Inr x) f = f x"
  by (simp_all add: bindE_def)

text \<open>
  C1. For every result block whose extracted link begins with a slash, the record that the
  extractor builds carries the resolved link: the first value of \<^verbatim>\<open>uddg\<close> when the link's
  query parameters have it, the link itself prefixed with \<^verbatim>\<open>https://duckduckgo.com\<close> when
  they do not, and that same prefixed link when parsing the link or its query string
  raises. The step always ends with a link, never with an exception: the record is built,
  the loop appends it, and a page made of that block gives exactly that record.
\<close>

theorem extractor_resolves_redirect:
  assumes "href t = Some link" and "startswith_slash link"
  shows "\<exists>l. (\<forall>pu qp v vs. urlparse lib link = Inr pu \<and> parse_qs lib (query pu) = Inr qp \<and>
                 map_of qp ''uddg'' = Some (v # vs) \<longrightarrow> l = v)
           \<and> (\<forall>pu qp. urlparse lib link = Inr pu \<and> parse_qs lib (query pu) = Inr qp \<and>
                 map_of qp ''uddg'' = None \<longrightarrow> l = ''https://duckduckgo.com'' @ link)
           \<and> ((\<exists>e. urlparse lib link = Inl e) \<or>
               (\<exists>pu e. urlparse lib link = Inr pu \<and> parse_qs lib (query pu) = Inl e) \<longrightarrow>
                 l = ''https://duckduckgo.com'' @ link)
           \<and> normalize_link lib link = Inr l
           \<and> make_record lib t s
               = Inr [(''title'', strip (get_text t)), (''link'', l), (''snippet'', strip (get_text s))]
           \<and> (\<forall>b bs n acc. title_element b = Some t \<and> snippet_element b = Some s \<longrightarrow>
                 scan_results lib n (b # bs) acc
                 = (if n \<le> int (length acc) + 1
                    then Inr (acc @ [[(''title'', strip (get_text t)), (''link'', l),
                                      (''snippet'', strip (get_text s))]])
                    else scan_results lib n bs
                           (acc @ [[(''title'', strip (get_text t)), (''link'', l),
                                    (''snippet'', strip (get_text s))]])))
           \<and> (\<forall>b q n response. client_post lib (search_request q) = Inr response \<and>
                 raise_for_status lib response = Inr () \<and>
                 find_results lib (body_text response) = Inr [b] \<and>
                 title_element b = Some t \<and> snippet_element b = Some s \<longrightarrow>
                 search_duckduckgo lib q n
                 = Inr [[(''title'', strip (get_text t)), (''link'', l),
                         (''snippet'', strip (get_text s))]])"
proof -
  have "\<exists>l. normalize_link lib link = Inr l"
    by (simp add: normalize_link_def split: sum.splits)
  then obtain l where l: "normalize_link lib link = Inr l" ..
  let ?r = "[(''title'', strip (get_text t)), (''link'', l), (''snippet'', strip (get_text s))]"
  have uddg: "\<forall>pu qp v vs. urlparse lib link = Inr pu \<and> parse_qs lib (query pu) = Inr qp \<and>
                 map_of qp ''uddg'' = Some (v # vs) \<longrightarrow> l = v"
    using l assms(2) by (auto simp: normalize_link_def redirect_target_def)
  have absent: "\<forall>pu qp. urlparse lib link = Inr pu \<and> parse_qs lib (query pu) = Inr qp \<and>
                 map_of qp ''uddg'' = None \<longrightarrow> l = ''https://duckduckgo.com'' @ link"
    using l assms(2) by (auto simp: normalize_link_def redirect_target_def DUCKDUCKGO_ORIGIN_def)
  have failed: "(\<exists>e. urlparse lib link = Inl e) \<or>
               (\<exists>pu e. urlparse lib link = Inr pu \<and> parse_qs lib (query pu) = Inl e) \<longrightarrow>
                 l = ''https://duckduckgo.com'' @ link"
    using l assms(2) by (auto simp: normalize_link_def redirect_target_def DUCKDUCKGO_ORIGIN_def)
  have made: "make_record lib t s = Inr ?r"
    using l assms(1) by (simp add: make_record_def Let_def)
  have step: "\<forall>b bs n acc. title_element b = Some t \<and> snippet_element b = Some s \<longrightarrow>
                 scan_results lib n (b # bs) acc
                 = (if n \<le> int (length acc) + 1 then Inr (acc @ [?r])
                    else scan_results lib n bs (acc @ [?r]))"
    using made by (simp add: Let_def)
  have whole: "\<forall>b q n response. client_post lib (search_request q) = Inr response \<and>
                 raise_for_status lib response = Inr () \<and>
                 find_results lib (body_text response) = Inr [b] \<and>
                 title_element b = Some t \<and> snippet_element b = Some s \<longrightarrow>
                 search_duckduckgo lib q n = Inr [?r]"
    using made by (simp add: search_duckduckgo_def search_body_def Let_def)
  from uddg absent failed l made step whole show ?thesis by blast
qed


theorem extractor_resolves_redirect_witness:
  "href \<lparr> get_text = ''A'', href = Some ''/l/?uddg=https%3A%2F%2Fexample.com'' \<rparr>
     = Some ''/l/?uddg=https%3A%2F%2Fexample.com''
   \<and> startswith_slash ''/l/?uddg=https%3A%2F%2Fexample.com''
   \<and> search_duckduckgo
         (demo_web ok_page [block ''A'' ''/l/?uddg=https%3A%2F%2Fexample.com'' ''first'']) ''q'' 15
       = Inr [[(''title'', ''A''), (''link'', ''https://example.com''), (''snippet'', ''first'')]]
   \<and> startswith_slash ''/l/?x=1''
   \<and> search_duckduckgo (demo_web ok_page [block ''A'' ''/l/?x=1'' ''first'']) ''q'' 15
       = Inr [[(''title'', ''A''), (''link'', ''https://duckduckgo.com/l/?x=1''),
               (''snippet'', ''first'')]]
   \<and> startswith_slash ''//[''
   \<and> search_duckduckgo (demo_web ok_page [block ''A'' ''//['' ''first'']) ''q'' 15
       = Inr [[(''title'', ''A''), (''link'', ''https://duckduckgo.com//[''),
               (''snippet'', ''first'')]]"
proof -
  let ?s = "\<lparr> get_text = ''first'', href = None \<rparr>"
  have present:
    "search_duckduckgo
       (demo_web ok_page [block ''A'' ''/l/?uddg=https%3A%2F%2Fexample.com'' ''first'']) ''q'' 15
     = Inr [[(''title'', ''A''), (''link'', ''https://example.com''), (''snippet'', ''first'')]]"
    using extractor_resolves_redirect
            [of "\<lparr> get_text = ''A'', href = Some ''/l/?uddg=https%3A%2F%2Fexample.com'' \<rparr>"
                "''/l/?uddg=https%3A%2F%2Fexample.com''"
                "demo_web ok_page [block ''A'' ''/l/?uddg=https%3A%2F%2Fexample.com'' ''first'']" ?s]
    by (auto simp add: demo_web_def demo_urlparse_def demo_parse_qs_def ok_page_def block_def
          strip_def is_space_def)
  have absent:
    "search_duckduckgo (demo_web ok_page [block ''A'' ''/l/?x=1'' ''first'']) ''q'' 15
     = Inr [[(''title'', ''A''), (''link'', ''https://duckduckgo.com/l/?x=1''),
             (''snippet'', ''first'')]]"
    using extractor_resolves_redirect
            [of "\<lparr> get_text = ''A'', href = Some ''/l/?x=1'' \<rparr>" "''/l/?x=1''"
                "demo_web ok_page [block ''A'' ''/l/?x=1'' ''first'']" ?s]
    by (auto simp add: demo_web_def demo_urlparse_def demo_parse_qs_def ok_page_def block_def
          strip_def is_space_def)
  have failed:
    "search_duckduckgo (demo_web ok_page [block ''A'' ''//['' ''first'']) ''q'' 15
     = Inr [[(''title'', ''A''), (''link'', ''https://duckduckgo.com//[''),
             (''snippet'', ''first'')]]"
    using extractor_resolves_redirect
            [of "\<lparr> get_text = ''A'', href = Some ''//['' \<rparr>" "''//[''"
                "demo_web ok_page [block ''A'' ''//['' ''first'']" ?s]
    by (auto simp add: demo_web_def demo_urlparse_def demo_parse_qs_def ok_page_def block_def
          strip_def is_space_def)
  from present absent failed show ?thesis by simp
qed

text \<open>
  The loop never holds more records than the maximum when the maximum is at least one, and
  once the records of a page prefix reach the maximum, nothing that follows the prefix is
  looked at.
\<close>

lemma scan_results_at_most:
  "scan_results lib n bs acc = Inr rs \<Longrightarrow> 1 \<le> n \<Longrightarrow> int (length acc) < n \<Longrightarrow>
   int (length rs) \<le> n"
proof (induction bs arbitrary: acc)
  case Nil
  then show ?case by simp
next
  case (Cons b bs)
  then show ?case
    by (auto split: option.splits sum.splits if_splits simp: Let_def)
qed

lemma scan_results_stops_at_maximum:
  "scan_results lib n bs acc = Inr rs \<Longrightarrow> n \<le> int (length rs) \<Longrightarrow> int (length acc) < n \<Longrightarrow>
   scan_results lib n (bs @ rest) acc = Inr rs"
proof (induction bs arbitrary: acc)
  case Nil
  then show ?case by simp
next
  case (Cons b bs)
  then show ?case
    by (auto split: option.splits sum.splits if_splits simp: Let_def)
qed

lemma search_duckduckgo_returns:
  "\<exists>rs. search_duckduckgo lib q n = Inr rs"
  by (simp add: search_duckduckgo_def split: sum.splits)

lemma search_duckduckgo_at_most:
  assumes "1 \<le> n" and "search_duckduckgo lib q n = Inr rs"
  shows "int (length rs) \<le> n"
proof (cases "search_body lib q n")
  case (Inl e)
  with assms show ?thesis by (auto simp: search_duckduckgo_def)
next
  case (Inr found)
  then have "rs = found" using assms(2) by (simp add: search_duckduckgo_def)
  moreover from Inr obtain bs where "scan_results lib n bs [] = Inr found"
    by (auto simp: search_body_def split: sum.splits)
  ultimately show ?thesis
    using scan_results_at_most [of lib n bs "[]" found] assms(1) by simp
qed

text \<open>
  C2, as stated, for every requested maximum: the extractor returns at most that many
  records. It fails for a maximum of zero: the count is compared with the maximum only
  after a record has been appended, so the first complete block is collected before the
  loop can stop.
\<close>

theorem zero_maximum_collects_one_record:
  "search_duckduckgo
     (demo_web ok_page
        [block ''A'' ''https://a.org'' ''first'', block ''B'' ''https://b.org'' ''second''])
     ''q'' 0
   = Inr [[(''title'', ''A''), (''link'', ''https://a.org''), (''snippet'', ''first'')]]
   \<and> \<not> int (length [[(''title'', ''A''), (''link'', ''https://a.org''), (''snippet'', ''first'')]]) \<le> 0"
  by (simp add: search_duckduckgo_def search_body_def demo_web_def ok_page_def block_def
        make_record_def normalize_link_def strip_def is_space_def Let_def)

text \<open>
  C2, amended: for every page and every requested maximum of at least one, the extractor
  returns a list of at most that many records, and as soon as the blocks read so far have
  given that many records the loop stops: whatever blocks follow, the result is the same.
\<close>

theorem search_results_bounded:
  assumes "1 \<le> n"
  shows "(\<exists>rs. search_duckduckgo lib q n = Inr rs \<and> int (length rs) \<le> n)
       \<and> (\<forall>bs rs rest. scan_results lib n bs [] = Inr rs \<and> n \<le> int (length rs) \<longrightarrow>
              scan_results lib n (bs @ rest) [] = Inr rs)"
proof
  obtain rs where "search_duckduckgo lib q n = Inr rs"
    using search_duckduckgo_returns by blast
  with assms show "\<exists>rs. search_duckduckgo lib q n = Inr rs \<and> int (length rs) \<le> n"
    using search_duckduckgo_at_most by blast
next
  show "\<forall>bs rs rest. scan_results lib n bs [] = Inr rs \<and> n \<le> int (length rs) \<longrightarrow>
          scan_results lib n (bs @ rest) [] = Inr rs"
    using assms scan_results_stops_at_maximum [of lib n _ "[]"] by auto
qed

theorem search_results_bounded_witness:
  "(1::int) \<le> 1
   \<and> (\<exists>rs. search_duckduckgo
              (demo_web ok_page
                 [block ''A'' ''https://a.org'' ''first'', block ''B'' ''https://b.org'' ''second''])
              ''q'' 1 = Inr rs \<and> int (length rs) \<le> 1)
   \<and> scan_results (demo_web ok_page []) 1
        ([block ''A'' ''https://a.org'' ''first'']
           @ [\<lparr> title_element = Some \<lparr> get_text = ''B'', href = None \<rparr>,
                 snippet_element = Some \<lparr> get_text = ''second'', href = None \<rparr> \<rparr>]) []
      = Inr [[(''title'', ''A''), (''link'', ''https://a.org''), (''snippet'', ''first'')]]"
proof -
  let ?lib = "demo_web ok_page []"
  let ?page = "demo_web ok_page
                 [block ''A'' ''https://a.org'' ''first'', block ''B'' ''https://b.org'' ''second'']"
  let ?rs = "[[(''title'', ''A''), (''link'', ''https://a.org''), (''snippet'', ''first'')]]"
  have one: "(1::int) \<le> 1" by simp
  have first: "scan_results ?lib 1 [block ''A'' ''https://a.org'' ''first''] [] = Inr ?rs"
    by (simp add: block_def make_record_def normalize_link_def strip_def is_space_def Let_def)
  have full: "(1::int) \<le> int (length ?rs)" by simp
  from search_results_bounded [OF one, of ?page "''q''"]
  have "\<exists>rs. search_duckduckgo ?page ''q'' 1 = Inr rs \<and> int (length rs) \<le> 1"
    by blast
  moreover from search_results_bounded [OF one, of ?lib] first full
  have "scan_results ?lib 1
          ([block ''A'' ''https://a.org'' ''first'']
             @ [\<lparr> title_element = Some \<lparr> get_text = ''B'', href = None \<rparr>,
                   snippet_element = Some \<lparr> get_text = ''second'', href = None \<rparr> \<rparr>]) []
        = Inr ?rs"
    by blast
  ultimately show ?thesis by simp
qed

text \<open>
  C3. Whenever the request fails in transport, either because posting it raises (a network
  error or a timeout) or because the status check on the response raises, the extractor
  returns exactly one record, whose content is the text of the exception; the tool then
  returns that text behind \<^verbatim>\<open>Error: \<close>. Neither raises.
\<close>

theorem search_transport_failure:
  assumes "client_post lib (search_request q) = Inl e
         \<or> (\<exists>r. client_post lib (search_request q) = Inr r \<and> raise_for_status lib r = Inl e)"
  shows "search_duckduckgo lib q n = Inr [[(''error'', exc_str e)]]
       \<and> web_search lib q = Inr (''Error: '' @ exc_str e)"
  using assms
  by (auto simp: search_duckduckgo_def search_body_def web_search_def has_key_def dict_get_def)

theorem search_transport_failure_witness:
  "client_post (demo_web (Inl (Exc TimeoutException ''timed out'')) []) (search_request ''q'')
     = Inl (Exc TimeoutException ''timed out'')
   \<and> search_duckduckgo (demo_web (Inl (Exc TimeoutException ''timed out'')) []) ''q'' 15
     = Inr [[(''error'', ''timed out'')]]
   \<and> web_search (demo_web (Inl (Exc TimeoutException ''timed out'')) []) ''q''
     = Inr ''Error: timed out''
   \<and> raise_for_status
       (demo_web (Inr \<lparr> status_code = 503, body_text = [], body_json = Inr JNull \<rparr>) [])
       \<lparr> status_code = 503, body_text = [], body_json = Inr JNull \<rparr>
     = Inl (Exc HTTPStatusError ''Server error 503'')
   \<and> search_duckduckgo
       (demo_web (Inr \<lparr> status_code = 503, body_text = [], body_json = Inr JNull \<rparr>) []) ''q'' 15
     = Inr [[(''error'', ''Server error 503'')]]"
proof -
  let ?down = "demo_web (Inl (Exc TimeoutException ''timed out'')) []"
  let ?resp = "\<lparr> status_code = 503, body_text = [], body_json = Inr JNull \<rparr>"
  let ?busy = "demo_web (Inr ?resp) []"
  have post: "client_post ?down (search_request ''q'') = Inl (Exc TimeoutException ''timed out'')"
    by (simp add: demo_web_def)
  have status: "raise_for_status ?busy ?resp = Inl (Exc HTTPStatusError ''Server error 503'')"
    by (simp add: demo_web_def str_int_def digits.simps)
  have answered: "client_post ?busy (search_request ''q'') = Inr ?resp"
    by (simp add: demo_web_def)
  from post have "search_duckduckgo ?down ''q'' 15 = Inr [[(''error'', ''timed out'')]]
                \<and> web_search ?down ''q'' = Inr ''Error: timed out''"
    using search_transport_failure [of ?down "''q''" "Exc TimeoutException ''timed out''" 15]
    by simp
  moreover from answered status
  have "search_duckduckgo ?busy ''q'' 15 = Inr [[(''error'', ''Server error 503'')]]"
    using search_transport_failure [of ?busy "''q''" "Exc HTTPStatusError ''Server error 503''" 15]
    by simp
  ultimately show ?thesis using post status by simp
qed

text \<open>
  C7. A result block that lacks its title element or its snippet element is skipped
  silently: wherever it stands in the page and whatever has been collected before it, the
  loop gives exactly what it gives on the page without that block, so the block adds no
  record, does not count towards the maximum and raises nothing.
\<close>

theorem incomplete_block_skipped:
  assumes "title_element b = None \<or> snippet_element b = None"
  shows "scan_results lib n (xs @ b # ys) acc = scan_results lib n (xs @ ys) acc"
  using assms
  by (induction xs arbitrary: acc) (auto split: option.splits sum.splits simp: Let_def)

theorem incomplete_block_skipped_witness:
  "title_element (untitled_block ''orphan'') = None
   \<and> scan_results (demo_web ok_page []) 2
       ([block ''A'' ''https://a.org'' ''first''] @ untitled_block ''orphan''
          # [block ''B'' ''https://b.org'' ''second'', block ''C'' ''https://c.org'' ''third'']) []
     = Inr [[(''title'', ''A''), (''link'', ''https://a.org''), (''snippet'', ''first'')],
            [(''title'', ''B''), (''link'', ''https://b.org''), (''snippet'', ''second'')]]"
proof -
  let ?lib = "demo_web ok_page []"
  have missing: "title_element (untitled_block ''orphan'') = None"
    by (simp add: untitled_block_def)
  have "scan_results ?lib 2
          ([block ''A'' ''https://a.org'' ''first'']
             @ [block ''B'' ''https://b.org'' ''second'', block ''C'' ''https://c.org'' ''third'']) []
        = Inr [[(''title'', ''A''), (''link'', ''https://a.org''), (''snippet'', ''first'')],
               [(''title'', ''B''), (''link'', ''https://b.org''), (''snippet'', ''second'')]]"
    by (simp add: block_def make_record_def normalize_link_def strip_def is_space_def Let_def)
  with missing show ?thesis
    using incomplete_block_skipped [of "untitled_block ''orphan''" ?lib 2
            "[block ''A'' ''https://a.org'' ''first'']"
            "[block ''B'' ''https://b.org'' ''second'', block ''C'' ''https://c.org'' ''third'']" "[]"]
    by simp
qed

section \<open>Properties of the repository content client\<close>

lemma length_split_slash: "length (split_slash s) = Suc (count_list s (CHR ''/''))"
  by (induction s) (auto split: list.splits)

text \<open>
  C4, as stated, for every reference that does not split into exactly two non-empty parts:
  the operations return the validation message without a network call. It fails for a
  reference with an empty part, such as \<^verbatim>\<open>owner/\<close>: the operations count the parts and do
  not look at their length, so the request is sent.
\<close>

theorem empty_segment_reaches_network:
  "\<not> two_nonempty_parts ''owner/''
   \<and> github_get_file (demo_github (ok_json (JObj []))) ''owner/'' ''README.md'' ''main''
     = ([contents_request ''owner'' [] ''README.md'' ''main''],
        Inr ''Error: Unexpected API response format'')
   \<and> fst (github_list_directory (demo_github (ok_json (JObj []))) ''owner/'' ''src'' ''main'')
     = [contents_request ''owner'' [] ''src'' ''main'']
   \<and> fst (github_search_code (demo_github (ok_json (JObj []))) ''owner/'' ''needle'' ''main'')
     = [search_code_request ''owner'' [] ''needle'' ''main'']"
  by (simp add: two_nonempty_parts_def github_get_file_def github_list_directory_def
        github_search_code_def get_github_contents_def demo_github_def ok_json_def
        file_result_def Let_def)

text \<open>
  C4, amended: for every reference that does not split into exactly two slash-separated
  parts (that is, one that does not hold exactly one slash), each of the file-fetch,
  directory-list and code-search operations returns the validation message and sends no
  request.
\<close>

theorem malformed_reference_rejected:
  assumes "length (split_slash repo) \<noteq> 2"
  shows "github_get_file lib repo file_path branch = ([], Inr (repo_format_error repo))
       \<and> github_list_directory lib repo pth branch = ([], Inr (repo_format_error repo))
       \<and> github_search_code lib repo q branch = ([], Inr (repo_format_error repo))"
  using assms by (simp add: github_get_file_def github_list_directory_def github_search_code_def)

theorem malformed_reference_rejected_witness:
  "length (split_slash ''owner/repo/extra'') \<noteq> 2
   \<and> github_get_file (demo_github (ok_json (JObj []))) ''owner/repo/extra'' ''README.md'' ''main''
     = ([], Inr (repo_format_error ''owner/repo/extra''))
   \<and> github_list_directory (demo_github (ok_json (JObj []))) ''owner/repo/extra'' ''src'' ''main''
     = ([], Inr (repo_format_error ''owner/repo/extra''))
   \<and> github_search_code (demo_github (ok_json (JObj []))) ''owner/repo/extra'' ''needle'' ''main''
     = ([], Inr (repo_format_error ''owner/repo/extra''))
   \<and> repo_format_error ''owner/repo/extra''
     = ''Error: Repository format should be '' @ [CHR 0x27] @ ''owner/repo'' @ [CHR 0x27]
       @ '', got '' @ [CHR 0x27] @ ''owner/repo/extra'' @ [CHR 0x27]"
proof -
  have bad: "length (split_slash ''owner/repo/extra'') \<noteq> 2" by simp
  from malformed_reference_rejected [OF bad, of "demo_github (ok_json (JObj []))"
         "''README.md''" "''main''" "''src''" "''needle''"] bad
  show ?thesis by (simp add: repo_format_error_def SQ_def)
qed

text \<open>
  C5, as stated, for every response that is a dict with type \<^verbatim>\<open>file\<close>, a content field and
  encoding \<^verbatim>\<open>base64\<close>: the operation returns the decoded text. It fails when the dict also
  has an \<^verbatim>\<open>error\<close> field, which the operation tests first and reports.
\<close>

theorem error_field_wins_over_content:
  "github_get_file
     (demo_github (ok_json (JObj [(''type'', JStr ''file''), (''content'', JStr ''aGk=''),
                                  (''encoding'', JStr ''base64''), (''error'', JStr ''boom'')])))
     ''o/r'' ''f.txt'' ''main''
   = ([contents_request ''o'' ''r'' ''f.txt'' ''main''], Inr ''Error: boom'')
   \<and> decode_content (demo_github (ok_json JNull)) (JStr ''aGk='') = Inr ''hi''"
  by (simp add: github_get_file_def get_github_contents_def demo_github_def ok_json_def
        file_result_def decode_content_def demo_b64decode_def demo_utf8_decode_def Let_def)

text \<open>
  C5, amended: for every successful response that is a dict without an \<^verbatim>\<open>error\<close> field,
  with type \<^verbatim>\<open>file\<close>, encoding \<^verbatim>\<open>base64\<close> and a content string that decodes from base64 to
  UTF-8 text, the file-fetch operation returns exactly that text.
\<close>

theorem get_file_decodes:
  assumes "length (split_slash repo) = 2"
      and "requests_get lib (contents_request (split_slash repo ! 0) (split_slash repo ! 1)
             file_path branch) = Inr response"
      and "status_code response = 200"
      and "body_json response = Inr (JObj kvs)"
      and "map_of kvs ''error'' = None"
      and "map_of kvs ''type'' = Some (JStr ''file'')"
      and "map_of kvs ''content'' = Some (JStr c)"
      and "map_of kvs ''encoding'' = Some (JStr ''base64'')"
      and "b64decode lib c = Inr raw"
      and "utf8_decode lib raw = Inr txt"
  shows "snd (github_get_file lib repo file_path branch) = Inr txt"
  using assms
  by (simp add: github_get_file_def get_github_contents_def file_result_def decode_content_def Let_def)

theorem get_file_decodes_witness:
  "length (split_slash ''o/r'') = 2
   \<and> b64decode (demo_github (ok_json JNull)) ''aGk='' = Inr ''hi''
   \<and> utf8_decode (demo_github (ok_json JNull)) ''hi'' = Inr ''hi''
   \<and> snd (github_get_file
            (demo_github (ok_json (JObj [(''type'', JStr ''file''), (''content'', JStr ''aGk=''),
                                         (''encoding'', JStr ''base64'')])))
            ''o/r'' ''f.txt'' ''main'') = Inr ''hi''"
proof -
  let ?kvs = "[(''type'', JStr ''file''), (''content'', JStr ''aGk=''), (''encoding'', JStr ''base64'')]"
  let ?lib = "demo_github (ok_json (JObj ?kvs))"
  let ?resp = "\<lparr> status_code = 200, body_text = [], body_json = Inr (JObj ?kvs) \<rparr>"
  have two: "length (split_slash ''o/r'') = 2" by simp
  have got: "requests_get ?lib (contents_request (split_slash ''o/r'' ! 0) (split_slash ''o/r'' ! 1)
               ''f.txt'' ''main'') = Inr ?resp"
    by (simp add: demo_github_def ok_json_def)
  have b: "b64decode ?lib ''aGk='' = Inr ''hi''"
    by (simp add: demo_github_def demo_b64decode_def)
  have u: "utf8_decode ?lib ''hi'' = Inr ''hi''"
    by (simp add: demo_github_def demo_utf8_decode_def)
  have "snd (github_get_file ?lib ''o/r'' ''f.txt'' ''main'') = Inr ''hi''"
    by (rule get_file_decodes [OF two got _ _ _ _ _ _ b u, of ?kvs]) simp_all
  moreover have "b64decode (demo_github (ok_json JNull)) ''aGk='' = Inr ''hi''"
    by (simp add: demo_github_def demo_b64decode_def)
  moreover have "utf8_decode (demo_github (ok_json JNull)) ''hi'' = Inr ''hi''"
    by (simp add: demo_github_def demo_utf8_decode_def)
  ultimately show ?thesis using two by simp
qed

text \<open>
  An entry that has its three fields is formatted as the reference block, and a list of
  such entries is formatted block by block in its own order.
\<close>

lemma format_entry_complete:
  "complete_entry item \<Longrightarrow> format_entry item = Inr (entry_block item)"
  by (cases item)
     (auto simp: complete_entry_def format_entry_def entry_block_def shown_def split: option.splits)

lemma format_entries_complete:
  "list_all complete_entry items \<Longrightarrow>
   format_entries items acc = Inr (acc @ map entry_block items)"
  by (induction items arbitrary: acc) (simp_all add: format_entry_complete)

lemma dicts_hold_no_string: "list_all is_dict items \<Longrightarrow> JStr k \<notin> set items"
  by (induction items) auto

lemma complete_entry_is_dict: "complete_entry item \<Longrightarrow> is_dict item"
  by (cases item) (simp_all add: complete_entry_def)

lemma complete_entries_are_dicts: "list_all complete_entry items \<Longrightarrow> list_all is_dict items"
  by (induction items) (simp_all add: complete_entry_is_dict)

text \<open>
  C6. For every directory response, a list of entries that each carry type, name and path
  (and perhaps size), the directory-list operation returns one block per entry, in the
  order of the list, joined by the separator; each block shows the entry's type, name,
  path and size, and the size reads \<^verbatim>\<open>N/A\<close> for an entry that is not a file.
\<close>

theorem list_directory_blocks:
  assumes "length (split_slash repo) = 2"
      and "requests_get lib (contents_request (split_slash repo ! 0) (split_slash repo ! 1)
             pth branch) = Inr response"
      and "status_code response = 200"
      and "body_json response = Inr (JArr items)"
      and "list_all complete_entry items"
  shows "snd (github_list_directory lib repo pth branch)
         = Inr (join (NL @ ''---'' @ NL) (map entry_block items))"
  using assms dicts_hold_no_string [OF complete_entries_are_dicts, of items "''error''"]
  by (simp add: github_list_directory_def get_github_contents_def directory_result_def Let_def
        format_entries_complete)

theorem list_directory_blocks_witness:
  "length (split_slash ''o/r'') = 2
   \<and> list_all complete_entry
        [JObj [(''type'', JStr ''file''), (''name'', JStr ''a.py''), (''path'', JStr ''src/a.py''),
               (''size'', JNum 120)],
         JObj [(''type'', JStr ''dir''), (''name'', JStr ''lib''), (''path'', JStr ''src/lib''),
               (''size'', JNum 0)]]
   \<and> snd (github_list_directory
            (demo_github (ok_json (JArr
               [JObj [(''type'', JStr ''file''), (''name'', JStr ''a.py''),
                      (''path'', JStr ''src/a.py''), (''size'', JNum 120)],
                JObj [(''type'', JStr ''dir''), (''name'', JStr ''lib''),
                      (''path'', JStr ''src/lib''), (''size'', JNum 0)]])))
            ''o/r'' ''src'' ''main'')
     = Inr (NL @ ''Type: file'' @ NL @ ''Name: a.py'' @ NL @ ''Path: src/a.py'' @ NL
              @ ''Size: 120 bytes'' @ NL
            @ NL @ ''---'' @ NL
            @ NL @ ''Type: dir'' @ NL @ ''Name: lib'' @ NL @ ''Path: src/lib'' @ NL
              @ ''Size: N/A bytes'' @ NL)"
proof -
  let ?items = "[JObj [(''type'', JStr ''file''), (''name'', JStr ''a.py''),
                       (''path'', JStr ''src/a.py''), (''size'', JNum 120)],
                 JObj [(''type'', JStr ''dir''), (''name'', JStr ''lib''),
                       (''path'', JStr ''src/lib''), (''size'', JNum 0)]]"
  let ?lib = "demo_github (ok_json (JArr ?items))"
  let ?resp = "\<lparr> status_code = 200, body_text = [], body_json = Inr (JArr ?items) \<rparr>"
  have two: "length (split_slash ''o/r'') = 2" by simp
  have got: "requests_get ?lib (contents_request (split_slash ''o/r'' ! 0) (split_slash ''o/r'' ! 1)
               ''src'' ''main'') = Inr ?resp"
    by (simp add: demo_github_def ok_json_def)
  have ok: "status_code ?resp = 200" by simp
  have body: "body_json ?resp = Inr (JArr ?items)" by simp
  have complete: "list_all complete_entry ?items" by (simp add: complete_entry_def)
  have size: "str_int 120 = ''120''" by (simp add: str_int_def digits.simps)
  from list_directory_blocks [OF two got ok body complete] two complete size
  show ?thesis by (simp add: entry_block_def shown_def)
qed

text \<open>
  C8. The connectivity check never raises. Whatever the probe does, the operation returns
  a text: the remaining quota when the probe answers 200 with the quota in its body (zero
  when the body has no \<^verbatim>\<open>resources\<close>), the status and body when it answers anything else, and
  the text of the exception when the request or the reading of the body raises.
\<close>

theorem check_connection_never_raises:
  "(\<exists>s. check_github_connection lib = ([rate_limit_request], Inr s))
   \<and> (\<forall>e. requests_get lib rate_limit_request = Inl e \<longrightarrow>
          snd (check_github_connection lib) = Inr (''Error: '' @ exc_str e))
   \<and> (\<forall>r. requests_get lib rate_limit_request = Inr r \<and> status_code r \<noteq> 200 \<longrightarrow>
          snd (check_github_connection lib)
          = Inr (''Error connecting to GitHub API: '' @ str_int (status_code r) @ '' - ''
                 @ body_text r))
   \<and> (\<forall>r e. requests_get lib rate_limit_request = Inr r \<and> status_code r = 200
             \<and> body_json r = Inl e \<longrightarrow>
          snd (check_github_connection lib) = Inr (''Error: '' @ exc_str e))
   \<and> (\<forall>r info res core v.
          requests_get lib rate_limit_request = Inr r \<and> status_code r = 200
          \<and> body_json r = Inr (JObj info) \<and> map_of info ''resources'' = Some (JObj res)
          \<and> map_of res ''core'' = Some (JObj core) \<and> map_of core ''remaining'' = Some v \<longrightarrow>
          snd (check_github_connection lib)
          = Inr (''GitHub API connection successful. Remaining rate limit: '' @ py_str v
                 @ '' requests.''))
   \<and> (\<forall>r info.
          requests_get lib rate_limit_request = Inr r \<and> status_code r = 200
          \<and> body_json r = Inr (JObj info) \<and> map_of info ''resources'' = None \<longrightarrow>
          snd (check_github_connection lib)
          = Inr (''GitHub API connection successful. Remaining rate limit: '' @ str_int 0
                 @ '' requests.''))"
  by (auto simp: check_github_connection_def connection_body_def split: sum.splits)

theorem check_connection_never_raises_witness:
  "snd (check_github_connection (demo_github (Inl (Exc ConnectError ''Connection refused''))))
     = Inr ''Error: Connection refused''
   \<and> snd (check_github_connection
            (demo_github (Inr \<lparr> status_code = 401, body_text = ''Bad credentials'',
                                 body_json = Inr JNull \<rparr>)))
     = Inr ''Error connecting to GitHub API: 401 - Bad credentials''
   \<and> snd (check_github_connection
            (demo_github (ok_json (JObj [(''resources'',
               JObj [(''core'', JObj [(''remaining'', JNum 4999)])])]))))
     = Inr ''GitHub API connection successful. Remaining rate limit: 4999 requests.''"
proof -
  let ?down = "demo_github (Inl (Exc ConnectError ''Connection refused''))"
  let ?r401 = "\<lparr> status_code = 401, body_text = ''Bad credentials'', body_json = Inr JNull \<rparr>"
  let ?denied = "demo_github (Inr ?r401)"
  let ?top = "[(''resources'', JObj [(''core'', JObj [(''remaining'', JNum 4999)])])]"
  let ?up = "demo_github (ok_json (JObj ?top))"
  have n1: "str_int 401 = ''401''" by (simp add: str_int_def digits.simps)
  have n2: "str_int 4999 = ''4999''" by (simp add: str_int_def digits.simps)
  have "requests_get ?down rate_limit_request = Inl (Exc ConnectError ''Connection refused'')"
    by (simp add: demo_github_def)
  with check_connection_never_raises [of ?down]
  have a: "snd (check_github_connection ?down) = Inr ''Error: Connection refused''"
    by simp
  have "requests_get ?denied rate_limit_request = Inr ?r401 \<and> status_code ?r401 \<noteq> 200"
    by (simp add: demo_github_def)
  with check_connection_never_raises [of ?denied] n1
  have b: "snd (check_github_connection ?denied)
           = Inr ''Error connecting to GitHub API: 401 - Bad credentials''"
    by simp
  have "requests_get ?up rate_limit_request
          = Inr \<lparr> status_code = 200, body_text = [], body_json = Inr (JObj ?top) \<rparr>"
    by (simp add: demo_github_def ok_json_def)
  with check_connection_never_raises [of ?up] n2
  have c: "snd (check_github_connection ?up)
           = Inr ''GitHub API connection successful. Remaining rate limit: 4999 requests.''"
    by simp
  from a b c show ?thesis by simp
qed

text \<open>
  In a listing whose entries are all dicts, an entry without one of its three fields makes
  the loop end in a \<^verbatim>\<open>KeyError\<close>; the matches of a search are read with defaults, so a list
  of dicts is always formatted, block by block, as the reference blocks.
\<close>

lemma format_entry_incomplete:
  assumes "is_dict item" and "\<not> complete_entry item"
  shows "\<exists>e. format_entry item = Inl e \<and> exc_kind e = KeyError"
proof -
  from assms(1) obtain kvs where item: "item = JObj kvs" by (cases item) simp_all
  show ?thesis
  proof (cases "map_of kvs ''type''")
    case None
    with item show ?thesis by (simp add: format_entry_def)
  next
    case ty: (Some t)
    show ?thesis
    proof (cases "map_of kvs ''name''")
      case None
      with item ty show ?thesis by (simp add: format_entry_def)
    next
      case nm: (Some n)
      with item ty assms(2) have "map_of kvs ''path'' = None"
        by (simp add: complete_entry_def)
      with item ty nm show ?thesis by (simp add: format_entry_def)
    qed
  qed
qed

lemma format_entries_incomplete:
  "list_all is_dict items \<Longrightarrow> \<not> list_all complete_entry items \<Longrightarrow>
   \<exists>e. format_entries items acc = Inl e \<and> exc_kind e = KeyError"
proof (induction items arbitrary: acc)
  case Nil
  then show ?case by simp
next
  case (Cons item items)
  show ?case
  proof (cases "complete_entry item")
    case True
    with Cons show ?thesis by (simp add: format_entry_complete)
  next
    case False
    with Cons.prems obtain e where "format_entry item = Inl e" "exc_kind e = KeyError"
      using format_entry_incomplete [of item] by auto
    then show ?thesis by simp
  qed
qed

lemma format_match_dict: "is_dict item \<Longrightarrow> format_match i item = Inr (match_block i item)"
  by (cases item) (simp_all add: format_match_def match_block_def shown_or_def split: option.splits)

lemma format_matches_dicts:
  "list_all is_dict items \<Longrightarrow>
   format_matches i items acc = Inr (acc @ match_blocks i items)"
  by (induction items arbitrary: i acc) (simp_all add: format_match_dict)

lemma length_match_blocks: "length (match_blocks i items) = length items"
  by (induction items arbitrary: i) simp_all

text \<open>
  C9, as stated, for both formatting paths: an item without an expected field raises past
  the operation. It fails on the code-search path: a match without name, path and URL is
  formatted with \<^verbatim>\<open>Unknown\<close> in their places, and the operation returns.
\<close>

theorem search_item_without_fields_is_formatted:
  "github_search_code (demo_github (ok_json (JObj [(''items'', JArr [JObj []])])))
     ''o/r'' ''needle'' ''main''
   = ([search_code_request ''o'' ''r'' ''needle'' ''main''],
      Inr (NL @ ''Result 1:'' @ NL @ ''Name: Unknown'' @ NL @ ''Path: Unknown'' @ NL
           @ ''URL: Unknown'' @ NL))"
  by (simp add: github_search_code_def demo_github_def ok_json_def search_result_def
        format_match_def str_int_def digits.simps Let_def)

text \<open>
  C9, amended: in the directory-listing path an entry that is a dict lacking type, name or
  path is not guarded against, and the \<^verbatim>\<open>KeyError\<close> leaves the operation. In the code-search
  path a match that is a dict lacking name, path or URL is guarded by a default: each
  missing field is shown as \<^verbatim>\<open>Unknown\<close>, and the operation returns the blocks of the
  matches, one per match, numbered in the order of the list.
\<close>

theorem missing_fields_by_path:
  "(length (split_slash repo) = 2
    \<and> requests_get lib (contents_request (split_slash repo ! 0) (split_slash repo ! 1) pth branch)
        = Inr response
    \<and> status_code response = 200 \<and> body_json response = Inr (JArr items)
    \<and> list_all is_dict items \<and> \<not> list_all complete_entry items
    \<longrightarrow> (\<exists>e. snd (github_list_directory lib repo pth branch) = Inl e \<and> exc_kind e = KeyError))
   \<and> (length (split_slash repo) = 2
    \<and> requests_get lib (search_code_request (split_slash repo ! 0) (split_slash repo ! 1) q branch)
        = Inr answer
    \<and> status_code answer = 200 \<and> body_json answer = Inr (JObj envelope)
    \<and> map_of envelope ''items'' = Some (JArr found) \<and> found \<noteq> [] \<and> list_all is_dict found
    \<longrightarrow> snd (github_search_code lib repo q branch)
          = Inr (join (NL @ ''---'' @ NL) (match_blocks 1 found))
        \<and> length (match_blocks 1 found) = length found)
   \<and> match_block i (JObj kvs)
     = NL @ ''Result '' @ str_int (int i) @ '':'' @ NL
       @ ''Name: '' @ (case map_of kvs ''name'' of Some v \<Rightarrow> py_str v | None \<Rightarrow> ''Unknown'') @ NL
       @ ''Path: '' @ (case map_of kvs ''path'' of Some v \<Rightarrow> py_str v | None \<Rightarrow> ''Unknown'') @ NL
       @ ''URL: '' @ (case map_of kvs ''html_url'' of Some v \<Rightarrow> py_str v | None \<Rightarrow> ''Unknown'') @ NL
   \<and> format_match i (JObj kvs) = Inr (match_block i (JObj kvs))"
proof (intro conjI impI)
  assume a: "length (split_slash repo) = 2
    \<and> requests_get lib (contents_request (split_slash repo ! 0) (split_slash repo ! 1) pth branch)
        = Inr response
    \<and> status_code response = 200 \<and> body_json response = Inr (JArr items)
    \<and> list_all is_dict items \<and> \<not> list_all complete_entry items"
  then obtain e where "format_entries items [] = Inl e" "exc_kind e = KeyError"
    using format_entries_incomplete [of items "[]"] by auto
  with a dicts_hold_no_string [of items "''error''"]
  show "\<exists>e. snd (github_list_directory lib repo pth branch) = Inl e \<and> exc_kind e = KeyError"
    by (simp add: github_list_directory_def get_github_contents_def directory_result_def Let_def)
next
  assume a: "length (split_slash repo) = 2
    \<and> requests_get lib (search_code_request (split_slash repo ! 0) (split_slash repo ! 1) q branch)
        = Inr answer
    \<and> status_code answer = 200 \<and> body_json answer = Inr (JObj envelope)
    \<and> map_of envelope ''items'' = Some (JArr found) \<and> found \<noteq> [] \<and> list_all is_dict found"
  then have "format_matches 1 found [] = Inr (match_blocks 1 found)"
    using format_matches_dicts [of found 1 "[]"] by simp
  with a show "snd (github_search_code lib repo q branch)
                 = Inr (join (NL @ ''---'' @ NL) (match_blocks 1 found))"
    by (simp add: github_search_code_def search_result_def Let_def)
next
  show "length (match_blocks 1 found) = length found"
    by (rule length_match_blocks)
next
  show "match_block i (JObj kvs)
     = NL @ ''Result '' @ str_int (int i) @ '':'' @ NL
       @ ''Name: '' @ (case map_of kvs ''name'' of Some v \<Rightarrow> py_str v | None \<Rightarrow> ''Unknown'') @ NL
       @ ''Path: '' @ (case map_of kvs ''path'' of Some v \<Rightarrow> py_str v | None \<Rightarrow> ''Unknown'') @ NL
       @ ''URL: '' @ (case map_of kvs ''html_url'' of Some v \<Rightarrow> py_str v | None \<Rightarrow> ''Unknown'') @ NL"
    by (simp add: match_block_def shown_or_def)
next
  show "format_match i (JObj kvs) = Inr (match_block i (JObj kvs))"
    by (simp add: format_match_dict)
qed

theorem missing_fields_by_path_witness:
  "exc_kind (Exc KeyError ([CHR 0x27] @ ''name'' @ [CHR 0x27])) = KeyError
   \<and> snd (github_list_directory
        (demo_github (ok_json (JArr [JObj [(''type'', JStr ''file''), (''path'', JStr ''src/a.py'')]])))
        ''o/r'' ''src'' ''main'')
     = Inl (Exc KeyError ([CHR 0x27] @ ''name'' @ [CHR 0x27]))
   \<and> snd (github_search_code
        (demo_github (ok_json (JObj [(''items'',
           JArr [JObj [(''name'', JStr ''a.py'')],
                 JObj [(''path'', JStr ''src/b.py''), (''html_url'', JStr ''https://h/b'')]])])))
        ''o/r'' ''needle'' ''main'')
     = Inr (NL @ ''Result 1:'' @ NL @ ''Name: a.py'' @ NL @ ''Path: Unknown'' @ NL
              @ ''URL: Unknown'' @ NL
            @ NL @ ''---'' @ NL
            @ NL @ ''Result 2:'' @ NL @ ''Name: Unknown'' @ NL @ ''Path: src/b.py'' @ NL
              @ ''URL: https://h/b'' @ NL)"
proof -
  let ?entries = "[JObj [(''type'', JStr ''file''), (''path'', JStr ''src/a.py'')]]"
  let ?dir = "demo_github (ok_json (JArr ?entries))"
  let ?found = "[JObj [(''name'', JStr ''a.py'')],
                 JObj [(''path'', JStr ''src/b.py''), (''html_url'', JStr ''https://h/b'')]]"
  let ?env = "[(''items'', JArr ?found)]"
  let ?hits = "demo_github (ok_json (JObj ?env))"
  have two: "length (split_slash ''o/r'') = 2" by simp
  have listing: "requests_get ?dir
                   (contents_request (split_slash ''o/r'' ! 0) (split_slash ''o/r'' ! 1) ''src'' ''main'')
                 = Inr \<lparr> status_code = 200, body_text = [], body_json = Inr (JArr ?entries) \<rparr>"
    by (simp add: demo_github_def ok_json_def)
  have shape: "list_all is_dict ?entries \<and> \<not> list_all complete_entry ?entries"
    by (simp add: complete_entry_def)
  from missing_fields_by_path
         [where repo = "''o/r''" and lib = ?dir and pth = "''src''" and branch = "''main''"
            and response = "\<lparr> status_code = 200, body_text = [], body_json = Inr (JArr ?entries) \<rparr>"
            and items = ?entries and q = "''needle''"
            and answer = "\<lparr> status_code = 200, body_text = [], body_json = Inr (JArr ?entries) \<rparr>"
            and envelope = "[]" and found = "[]" and i = 1 and kvs = "[]"]
       two listing shape
  have "\<exists>e. snd (github_list_directory ?dir ''o/r'' ''src'' ''main'') = Inl e \<and> exc_kind e = KeyError"
    by simp
  moreover have "snd (github_list_directory ?dir ''o/r'' ''src'' ''main'')
                 = Inl (Exc KeyError ([CHR 0x27] @ ''name'' @ [CHR 0x27]))"
    by (simp add: github_list_directory_def get_github_contents_def demo_github_def ok_json_def
          directory_result_def format_entry_def repr_str_def escape_char_def Let_def)
  moreover
  have hits: "requests_get ?hits
                (search_code_request (split_slash ''o/r'' ! 0) (split_slash ''o/r'' ! 1) ''needle'' ''main'')
              = Inr \<lparr> status_code = 200, body_text = [], body_json = Inr (JObj ?env) \<rparr>"
    by (simp add: demo_github_def ok_json_def)
  have n1: "str_int 1 = ''1''" by (simp add: str_int_def digits.simps)
  have n2: "str_int 2 = ''2''" by (simp add: str_int_def digits.simps)
  from missing_fields_by_path
         [where repo = "''o/r''" and lib = ?hits and pth = "''src''" and branch = "''main''"
            and response = "\<lparr> status_code = 200, body_text = [], body_json = Inr (JObj ?env) \<rparr>"
            and items = "[]" and q = "''needle''"
            and answer = "\<lparr> status_code = 200, body_text = [], body_json = Inr (JObj ?env) \<rparr>"
            and envelope = ?env and found = ?found and i = 1 and kvs = "[]"]
       two hits
  have "snd (github_search_code ?hits ''o/r'' ''needle'' ''main'')
        = Inr (join (NL @ ''---'' @ NL) (match_blocks 1 ?found))"
    by simp
  then have "snd (github_search_code ?hits ''o/r'' ''needle'' ''main'')
     = Inr (NL @ ''Result 1:'' @ NL @ ''Name: a.py'' @ NL @ ''Path: Unknown'' @ NL
              @ ''URL: Unknown'' @ NL
            @ NL @ ''---'' @ NL
            @ NL @ ''Result 2:'' @ NL @ ''Name: Unknown'' @ NL @ ''Path: src/b.py'' @ NL
              @ ''URL: https://h/b'' @ NL)"
    using n1 n2 by (simp add: match_block_def shown_or_def)
  ultimately show ?thesis by simp
qed

text \<open>
  C10. For a response that is a dict with type \<^verbatim>\<open>file\<close> and a content field but no
  encoding field (and no \<^verbatim>\<open>error\<close> field), the file-fetch operation raises
  \<^verbatim>\<open>KeyError('encoding')\<close> instead of returning a text: the encoding is read by subscript
  once the content field is found.
\<close>

theorem get_file_missing_encoding_raises:
  assumes "length (split_slash repo) = 2"
      and "requests_get lib (contents_request (split_slash repo ! 0) (split_slash repo ! 1)
             file_path branch) = Inr response"
      and "status_code response = 200"
      and "body_json response = Inr (JObj kvs)"
      and "map_of kvs ''error'' = None"
      and "map_of kvs ''type'' = Some (JStr ''file'')"
      and "map_of kvs ''content'' = Some c"
      and "map_of kvs ''encoding'' = None"
  shows "snd (github_get_file lib repo file_path branch)
         = Inl (Exc KeyError ([CHR 0x27] @ ''encoding'' @ [CHR 0x27]))"
  using assms
  by (simp add: github_get_file_def get_github_contents_def file_result_def Let_def
        repr_str_def escape_char_def)

theorem get_file_missing_encoding_raises_witness:
  "length (split_slash ''o/r'') = 2
   \<and> map_of [(''type'', JStr ''file''), (''content'', JStr ''aGk='')] ''encoding'' = None
   \<and> snd (github_get_file
            (demo_github (ok_json (JObj [(''type'', JStr ''file''), (''content'', JStr ''aGk='')])))
            ''o/r'' ''f.txt'' ''main'')
     = Inl (Exc KeyError ([CHR 0x27] @ ''encoding'' @ [CHR 0x27]))"
proof -
  let ?kvs = "[(''type'', JStr ''file''), (''content'', JStr ''aGk='')]"
  let ?lib = "demo_github (ok_json (JObj ?kvs))"
  let ?resp = "\<lparr> status_code = 200, body_text = [], body_json = Inr (JObj ?kvs) \<rparr>"
  have two: "length (split_slash ''o/r'') = 2" by simp
  have got: "requests_get ?lib (contents_request (split_slash ''o/r'' ! 0) (split_slash ''o/r'' ! 1)
               ''f.txt'' ''main'') = Inr ?resp"
    by (simp add: demo_github_def ok_json_def)
  have "snd (github_get_file ?lib ''o/r'' ''f.txt'' ''main'')
        = Inl (Exc KeyError ([CHR 0x27] @ ''encoding'' @ [CHR 0x27]))"
    by (rule get_file_missing_encoding_raises [OF two got, of ?kvs "JStr ''aGk=''"]) simp_all
  with two show ?thesis by simp
qed

end
